theory Spec2Isabelle
  imports Complex_Main
begin

section \<open>JavaScript numbers\<close>

text \<open>
  Every value the animation code computes with is a JavaScript number, an IEEE 754
  double. The model keeps the kinds of value that decide the control flow of the easing
  functions: a finite number, the negative zero, the two infinities and NaN. \<open>Fin 0\<close> is
  the positive zero and \<open>NegZero\<close> the negative one; the two compare as equal, and differ
  as divisors. Division by zero, the signs of zero results, the arithmetic of the
  infinities and the comparisons with NaN follow IEEE 754, as JavaScript does: nothing
  raises, \<open>t / 0\<close> is an infinity or NaN, and every comparison with NaN is false.

  Finite arithmetic is exact: a finite result is the real number, where a double is
  that number rounded to 53 bits, or an infinity on overflow. Rounding and overflow are
  not modelled: \<open>Fin (a + b)\<close> stands for the sum as the code computes it, and a
  result that the code reaches by a difference and a sum is stated as that difference
  and sum (\<open>start + (destination - start)\<close>), not as the value they have over the reals.
\<close>

datatype number = Fin real | NegZero | PosInf | NegInf | NaN

instantiation number :: ord
begin

fun less_number :: "number \<Rightarrow> number \<Rightarrow> bool" where
  "less_number (Fin a) (Fin b) = (a < b)"
| "less_number (Fin a) NegZero = (a < 0)"
| "less_number NegZero (Fin b) = (0 < b)"
| "less_number (Fin a) PosInf = True"
| "less_number NegZero PosInf = True"
| "less_number NegInf (Fin b) = True"
| "less_number NegInf NegZero = True"
| "less_number NegInf PosInf = True"
| "less_number _ _ = False"

fun less_eq_number :: "number \<Rightarrow> number \<Rightarrow> bool" where
  "less_eq_number (Fin a) (Fin b) = (a \<le> b)"
| "less_eq_number (Fin a) NegZero = (a \<le> 0)"
| "less_eq_number NegZero (Fin b) = (0 \<le> b)"
| "less_eq_number NegZero NegZero = True"
| "less_eq_number (Fin a) PosInf = True"
| "less_eq_number NegZero PosInf = True"
| "less_eq_number PosInf PosInf = True"
| "less_eq_number NegInf (Fin b) = True"
| "less_eq_number NegInf NegZero = True"
| "less_eq_number NegInf PosInf = True"
| "less_eq_number NegInf NegInf = True"
| "less_eq_number _ _ = False"

instance ..

end

instantiation number :: plus
begin

fun plus_number :: "number \<Rightarrow> number \<Rightarrow> number" where
  "plus_number (Fin a) (Fin b) = Fin (a + b)"
| "plus_number (Fin a) NegZero = Fin a"
| "plus_number NegZero (Fin b) = Fin b"
| "plus_number NegZero NegZero = NegZero"
| "plus_number NaN _ = NaN"
| "plus_number _ NaN = NaN"
| "plus_number PosInf NegInf = NaN"
| "plus_number NegInf PosInf = NaN"
| "plus_number PosInf _ = PosInf"
| "plus_number NegInf _ = NegInf"
| "plus_number _ PosInf = PosInf"
| "plus_number _ NegInf = NegInf"

instance ..

end

instantiation number :: minus
begin

fun minus_number :: "number \<Rightarrow> number \<Rightarrow> number" where
  "minus_number (Fin a) (Fin b) = Fin (a - b)"
| "minus_number (Fin a) NegZero = Fin a"
| "minus_number NegZero (Fin b) = (if b = 0 then NegZero else Fin (- b))"
| "minus_number NegZero NegZero = Fin 0"
| "minus_number NaN _ = NaN"
| "minus_number _ NaN = NaN"
| "minus_number PosInf PosInf = NaN"
| "minus_number NegInf NegInf = NaN"
| "minus_number PosInf _ = PosInf"
| "minus_number NegInf _ = NegInf"
| "minus_number _ PosInf = NegInf"
| "minus_number _ NegInf = PosInf"

instance ..

end

text \<open>The sign of an infinite product or quotient; a zero operand gives NaN.\<close>

definition signedInf :: "real \<Rightarrow> number" where
  "signedInf s = (if 0 < s then PosInf else if s < 0 then NegInf else NaN)"

text \<open>A zero product or quotient is negative when exactly one operand is negative.\<close>

instantiation number :: times
begin

fun times_number :: "number \<Rightarrow> number \<Rightarrow> number" where
  "times_number (Fin a) (Fin b) =
     (if a * b = 0 \<and> (a < 0 \<or> b < 0) then NegZero else Fin (a * b))"
| "times_number (Fin a) NegZero = (if a < 0 then Fin 0 else NegZero)"
| "times_number NegZero (Fin b) = (if b < 0 then Fin 0 else NegZero)"
| "times_number NegZero NegZero = Fin 0"
| "times_number NaN _ = NaN"
| "times_number _ NaN = NaN"
| "times_number (Fin a) PosInf = signedInf a"
| "times_number (Fin a) NegInf = signedInf (- a)"
| "times_number PosInf (Fin b) = signedInf b"
| "times_number NegInf (Fin b) = signedInf (- b)"
| "times_number NegZero _ = NaN"
| "times_number _ NegZero = NaN"
| "times_number PosInf PosInf = PosInf"
| "times_number NegInf NegInf = PosInf"
| "times_number PosInf NegInf = NegInf"
| "times_number NegInf PosInf = NegInf"

instance ..

end

instantiation number :: inverse
begin

fun divide_number :: "number \<Rightarrow> number \<Rightarrow> number" where
  "divide_number (Fin a) (Fin b) =
     (if b = 0 then signedInf a
      else if a = 0 \<and> b < 0 then NegZero
      else Fin (a / b))"
| "divide_number (Fin a) NegZero = signedInf (- a)"
| "divide_number NegZero (Fin b) = (if b = 0 then NaN else if b < 0 then Fin 0 else NegZero)"
| "divide_number NegZero NegZero = NaN"
| "divide_number NaN _ = NaN"
| "divide_number _ NaN = NaN"
| "divide_number (Fin a) PosInf = (if a < 0 then NegZero else Fin 0)"
| "divide_number (Fin a) NegInf = (if a < 0 then Fin 0 else NegZero)"
| "divide_number NegZero PosInf = NegZero"
| "divide_number NegZero NegInf = Fin 0"
| "divide_number PosInf (Fin b) = (if 0 \<le> b then PosInf else NegInf)"
| "divide_number PosInf NegZero = NegInf"
| "divide_number NegInf (Fin b) = (if 0 \<le> b then NegInf else PosInf)"
| "divide_number NegInf NegZero = PosInf"
| "divide_number PosInf _ = NaN"
| "divide_number NegInf _ = NaN"

definition inverse_number :: "number \<Rightarrow> number" where
  "inverse_number a = divide (Fin 1) a"

instance ..

end

text \<open>\<open>Math.pow(p, 2)\<close>: the square, which is NaN on NaN and \<open>+Infinity\<close> on both infinities.\<close>

definition Math_pow2 :: "number \<Rightarrow> number" where
  "Math_pow2 p = p * p"

section \<open>Global constants\<close>

definition MILLISECONDS_IN_SECOND :: number where
  "MILLISECONDS_IN_SECOND = Fin 1000"

section \<open>Animation\<close>

record Animation =
  animDuration :: number
  animDestinationX :: number
  animDestinationY :: number
  animStartX :: number
  animStartY :: number
  animStartTime :: number
  isAnimating :: bool
  animDistanceX :: number
  animDistanceY :: number

text \<open>The constructor \<open>new Animation(duration, startTime, destinationX, destinationY, startX, startY)\<close>.\<close>

definition new_Animation ::
  "number \<Rightarrow> number \<Rightarrow> number \<Rightarrow> number \<Rightarrow> number \<Rightarrow> number \<Rightarrow> Animation" where
  "new_Animation duration startTime destinationX destinationY startX startY =
     \<lparr> animDuration = duration,
       animDestinationX = destinationX,
       animDestinationY = destinationY,
       animStartX = startX,
       animStartY = startY,
       animStartTime = startTime,
       isAnimating = False,
       animDistanceX = destinationX - startX,
       animDistanceY = destinationY - startY \<rparr>"

section \<open>Easing\<close>

definition calculateEaseIn :: "number \<Rightarrow> number \<Rightarrow> number \<Rightarrow> number \<Rightarrow> number" where
  "calculateEaseIn time duration distance position =
     (let percentage = time / duration;
          percentage = (if percentage > Fin 1 then Fin 1 else percentage)
      in position + distance * Math_pow2 percentage)"

definition calculateEaseOut :: "number \<Rightarrow> number \<Rightarrow> number \<Rightarrow> number \<Rightarrow> number" where
  "calculateEaseOut time duration distance position =
     (let percentage = time / duration;
          percentage = (if percentage > Fin 1 then Fin 1 else percentage)
      in position + (Fin (- 1) * distance * percentage * (percentage - Fin 2)))"

section \<open>AnimatableShape\<close>

record AnimatableShape =
  x :: number
  y :: number
  width :: number
  height :: number
  animationTween :: Animation
  animationStretch :: Animation
  animationShrink :: Animation

text \<open>
  The host's clock \<open>millis()\<close> is read at several places of a call, and may tick between
  two of them. Every function below takes one reading for each place where its source
  calls \<open>millis()\<close>, in the order of the source.

  The constructor builds the stretch and shrink records from the globals \<open>width\<close> and
  \<open>height\<close> of the host (the canvas size), not from its own parameters; they are the
  parameters \<open>canvasWidth\<close> and \<open>canvasHeight\<close> here.
\<close>

definition new_AnimatableShape ::
  "number \<Rightarrow> number \<Rightarrow> number \<Rightarrow> number \<Rightarrow> number \<Rightarrow> number \<Rightarrow>
   number \<Rightarrow> number \<Rightarrow> number \<Rightarrow> AnimatableShape" where
  "new_AnimatableShape px py shapeWidth shapeHeight canvasWidth canvasHeight
       millisTween millisStretch millisShrink =
     \<lparr> x = px,
       y = py,
       width = shapeWidth,
       height = shapeHeight,
       animationTween = new_Animation (Fin 0) millisTween px py px py,
       animationStretch =
         new_Animation (Fin 0) millisStretch canvasWidth canvasHeight canvasWidth canvasHeight,
       animationShrink =
         new_Animation (Fin 0) millisShrink canvasWidth canvasHeight canvasWidth canvasHeight \<rparr>"

text \<open>
  \<open>tween(finalX, finalY, duration)\<close>. The two \<open>PVector\<close> values of the source are
  never used and are left out.
\<close>

definition tween :: "number \<Rightarrow> number \<Rightarrow> number \<Rightarrow> number \<Rightarrow> AnimatableShape \<Rightarrow> AnimatableShape" where
  "tween finalX finalY duration millisNow s =
     s\<lparr> animationTween :=
          (new_Animation duration millisNow finalX finalY (x s) (y s))\<lparr> isAnimating := True \<rparr> \<rparr>"

text \<open>\<open>stretchIn(maxScale, duration)\<close>; \<open>millis()\<close> is read once for each of the two records.\<close>

definition stretchIn :: "number \<Rightarrow> number \<Rightarrow> number \<Rightarrow> number \<Rightarrow> AnimatableShape \<Rightarrow> AnimatableShape" where
  "stretchIn maxScale0 duration millisStretch millisShrink s =
     (let maxScale = (if maxScale0 < Fin 1 then Fin 1 else maxScale0);
          totalScaleChange = maxScale + maxScale - Fin 1;
          durationOfStretch = (maxScale / totalScaleChange) * duration;
          s1 = s\<lparr> animationStretch :=
                  (new_Animation durationOfStretch millisStretch
                     (maxScale * width s) (maxScale * height s) (Fin 0) (Fin 0))
                  \<lparr> isAnimating := True \<rparr> \<rparr>
      in s1\<lparr> animationShrink :=
              new_Animation (duration - durationOfStretch) millisShrink
                (width s1) (height s1) (maxScale * width s1) (maxScale * height s1) \<rparr>)"

text \<open>
  The per-frame update \<open>AnimatableShape.prototype.draw\<close> is three blocks in sequence, one
  for each animation slot. Each block is a function of its own here, and \<open>draw\<close> runs them
  in the order of the source.
\<close>

definition timePassedSince :: "number \<Rightarrow> Animation \<Rightarrow> number" where
  "timePassedSince millisNow a =
     (millisNow / MILLISECONDS_IN_SECOND) - (animStartTime a / MILLISECONDS_IN_SECOND)"

definition drawTween :: "number \<Rightarrow> AnimatableShape \<Rightarrow> AnimatableShape" where
  "drawTween millisNow s =
     (if isAnimating (animationTween s) then
        (let timePassed = timePassedSince millisNow (animationTween s);
             s1 = s\<lparr> y := calculateEaseOut timePassed
                           (animDuration (animationTween s))
                           (animDistanceY (animationTween s))
                           (animStartY (animationTween s)) \<rparr>;
             s2 = s1\<lparr> x := calculateEaseOut timePassed
                           (animDuration (animationTween s1))
                           (animDistanceX (animationTween s1))
                           (animStartX (animationTween s1)) \<rparr>
         in if timePassed > animDuration (animationTween s2)
            then s2\<lparr> animationTween := (animationTween s2)\<lparr> isAnimating := False \<rparr> \<rparr>
            else s2)
      else s)"

definition drawStretch :: "number \<Rightarrow> number \<Rightarrow> AnimatableShape \<Rightarrow> AnimatableShape" where
  "drawStretch millisNow millisHandOff s =
     (if isAnimating (animationStretch s) then
        (let timePassed = timePassedSince millisNow (animationStretch s);
             s1 = s\<lparr> width := calculateEaseOut timePassed
                           (animDuration (animationStretch s))
                           (animDistanceY (animationStretch s))
                           (animStartY (animationStretch s)) \<rparr>;
             s2 = s1\<lparr> height := calculateEaseOut timePassed
                           (animDuration (animationStretch s1))
                           (animDistanceX (animationStretch s1))
                           (animStartX (animationStretch s1)) \<rparr>
         in if timePassed > animDuration (animationStretch s2)
            then s2\<lparr> animationStretch := (animationStretch s2)\<lparr> isAnimating := False \<rparr>,
                     animationShrink := (animationShrink s2)
                        \<lparr> animStartTime := millisHandOff, isAnimating := True \<rparr> \<rparr>
            else s2)
      else s)"

definition drawShrink :: "number \<Rightarrow> AnimatableShape \<Rightarrow> AnimatableShape" where
  "drawShrink millisNow s =
     (if isAnimating (animationShrink s) then
        (let timePassed = timePassedSince millisNow (animationShrink s);
             s1 = s\<lparr> width := calculateEaseIn timePassed
                           (animDuration (animationShrink s))
                           (animDistanceY (animationShrink s))
                           (animStartY (animationShrink s)) \<rparr>;
             s2 = s1\<lparr> height := calculateEaseIn timePassed
                           (animDuration (animationShrink s1))
                           (animDistanceX (animationShrink s1))
                           (animStartX (animationShrink s1)) \<rparr>
         in if timePassed > animDuration (animationShrink s2)
            then s2\<lparr> animationShrink := (animationShrink s2)\<lparr> isAnimating := False \<rparr> \<rparr>
            else s2)
      else s)"

definition draw :: "number \<Rightarrow> number \<Rightarrow> number \<Rightarrow> number \<Rightarrow> AnimatableShape \<Rightarrow> AnimatableShape" where
  "draw millisTween millisStretch millisHandOff millisShrink s =
     drawShrink millisShrink (drawStretch millisStretch millisHandOff (drawTween millisTween s))"

text \<open>
  The states a shape can be in: freshly constructed, then any sequence of \<open>tween\<close>,
  \<open>stretchIn\<close> and \<open>draw\<close> calls with any arguments and any clock readings.
\<close>

inductive reachable :: "AnimatableShape \<Rightarrow> bool" where
  fresh: "reachable (new_AnimatableShape px py w h cw ch t1 t2 t3)"
| after_tween: "reachable s \<Longrightarrow> reachable (tween finalX finalY duration t1 s)"
| after_stretchIn: "reachable s \<Longrightarrow> reachable (stretchIn maxScale duration t1 t2 s)"
| after_draw: "reachable s \<Longrightarrow> reachable (draw t1 t2 t3 t4 s)"

section \<open>Auxiliary notions and concrete shapes\<close>

text \<open>The stretch and the shrink slot are not both running.\<close>

definition notBothRunning :: "AnimatableShape \<Rightarrow> bool" where
  "notBothRunning s = (\<not> (isAnimating (animationStretch s) \<and> isAnimating (animationShrink s)))"

text \<open>
  A 20 by 20 shape at (100, 100) on a 400 by 400 canvas; the same shape after
  \<open>tween(200, 300, 1.0)\<close> at clock 0; and that shape after an update at 500 ms, half way
  through the tween.
\<close>

definition shapeAt100 :: AnimatableShape where
  "shapeAt100 =
     new_AnimatableShape (Fin 100) (Fin 100) (Fin 20) (Fin 20) (Fin 400) (Fin 400)
       (Fin 0) (Fin 0) (Fin 0)"

definition tweening100 :: AnimatableShape where
  "tweening100 = tween (Fin 200) (Fin 300) (Fin 1) (Fin 0) shapeAt100"

definition midFlight100 :: AnimatableShape where
  "midFlight100 = draw (Fin 500) (Fin 500) (Fin 500) (Fin 500) tweening100"



text \<open>
  A shape of width 10 and height 20; after \<open>stretchIn(2, 3)\<close> at clock 0 (the stretch
  lasts 2 seconds, the shrink 1 second); after an update at 2500 ms, past the end of the
  stretch; and after an update at 4000 ms, past the end of the shrink.
\<close>

definition shape10x20 :: AnimatableShape where
  "shape10x20 =
     new_AnimatableShape (Fin 200) (Fin 200) (Fin 10) (Fin 20) (Fin 400) (Fin 400)
       (Fin 0) (Fin 0) (Fin 0)"

definition stretching10x20 :: AnimatableShape where
  "stretching10x20 = stretchIn (Fin 2) (Fin 3) (Fin 0) (Fin 0) shape10x20"

definition stretched10x20 :: AnimatableShape where
  "stretched10x20 = draw (Fin 2500) (Fin 2500) (Fin 2500) (Fin 2500) stretching10x20"

definition shrunk10x20 :: AnimatableShape where
  "shrunk10x20 = draw (Fin 4000) (Fin 4000) (Fin 4000) (Fin 4000) stretched10x20"

section \<open>Easing at and past the end\<close>

lemma twice_number: "Fin 2 * m = m + m"
  by (cases m) (simp_all add: signedInf_def)

lemma times_one: "m * Fin 1 = m"
  by (cases m) (simp_all add: signedInf_def)

text \<open>At percentage 1 the factor of the ease-out is \<open>-1 * (1 - 2)\<close>, and leaves the distance.\<close>

lemma negate_twice: "Fin (- 1) * m * Fin 1 * (Fin 1 - Fin 2) = m"
  by (cases m) (simp_all add: signedInf_def)

text \<open>
  An elapsed time above a duration that is positive or the positive zero: the quotient is
  above 1 or \<open>+Infinity\<close>, and the clamp makes it 1.
\<close>

lemma clamp_past_duration:
  assumes "0 \<le> d" "Fin d < elapsed"
  shows "(if elapsed / Fin d > Fin 1 then Fin 1 else elapsed / Fin d) = Fin 1"
  using assms by (cases elapsed) (auto simp add: signedInf_def)

lemma easeOut_past_duration:
  assumes "0 \<le> d" "Fin d < elapsed"
  shows "calculateEaseOut elapsed (Fin d) distance position = position + distance"
  unfolding calculateEaseOut_def Let_def clamp_past_duration [OF assms]
  by (simp only: negate_twice)

lemma easeIn_past_duration:
  assumes "0 \<le> d" "Fin d < elapsed"
  shows "calculateEaseIn elapsed (Fin d) distance position = position + distance"
  unfolding calculateEaseIn_def Let_def clamp_past_duration [OF assms] Math_pow2_def
  by (simp add: times_one)

section \<open>What each block of the update leaves alone\<close>

lemma drawTween_size [simp]:
  "width (drawTween t1 s) = width s"
  "height (drawTween t1 s) = height s"
  "animationStretch (drawTween t1 s) = animationStretch s"
  "animationShrink (drawTween t1 s) = animationShrink s"
  by (simp_all add: drawTween_def Let_def)

lemma drawStretch_position [simp]:
  "x (drawStretch t1 t2 s) = x s"
  "y (drawStretch t1 t2 s) = y s"
  "animationTween (drawStretch t1 t2 s) = animationTween s"
  by (simp_all add: drawStretch_def Let_def)

lemma drawShrink_position [simp]:
  "x (drawShrink t1 s) = x s"
  "y (drawShrink t1 s) = y s"
  "animationTween (drawShrink t1 s) = animationTween s"
  "animationStretch (drawShrink t1 s) = animationStretch s"
  by (simp_all add: drawShrink_def Let_def)

lemma drawShrink_flag:
  "isAnimating (animationShrink (drawShrink t1 s)) \<Longrightarrow> isAnimating (animationShrink s)"
  by (simp add: drawShrink_def Let_def split: if_splits)

section \<open>The concrete shapes, evaluated\<close>

lemma tweening100_eq:
  "tweening100 =
     \<lparr> x = Fin 100, y = Fin 100, width = Fin 20, height = Fin 20,
       animationTween =
         (new_Animation (Fin 1) (Fin 0) (Fin 200) (Fin 300) (Fin 100) (Fin 100))
         \<lparr> isAnimating := True \<rparr>,
       animationStretch = new_Animation (Fin 0) (Fin 0) (Fin 400) (Fin 400) (Fin 400) (Fin 400),
       animationShrink = new_Animation (Fin 0) (Fin 0) (Fin 400) (Fin 400) (Fin 400) (Fin 400) \<rparr>"
  by (simp add: tweening100_def shapeAt100_def tween_def new_AnimatableShape_def)

lemma midFlight100_eq:
  "midFlight100 =
     \<lparr> x = Fin 175, y = Fin 250, width = Fin 20, height = Fin 20,
       animationTween =
         (new_Animation (Fin 1) (Fin 0) (Fin 200) (Fin 300) (Fin 100) (Fin 100))
         \<lparr> isAnimating := True \<rparr>,
       animationStretch = new_Animation (Fin 0) (Fin 0) (Fin 400) (Fin 400) (Fin 400) (Fin 400),
       animationShrink = new_Animation (Fin 0) (Fin 0) (Fin 400) (Fin 400) (Fin 400) (Fin 400) \<rparr>"
  unfolding midFlight100_def tweening100_eq
  by (simp add: draw_def drawTween_def drawStretch_def drawShrink_def Let_def new_Animation_def
      timePassedSince_def MILLISECONDS_IN_SECOND_def calculateEaseOut_def)

lemma stretching10x20_eq:
  "stretching10x20 =
     \<lparr> x = Fin 200, y = Fin 200, width = Fin 10, height = Fin 20,
       animationTween = new_Animation (Fin 0) (Fin 0) (Fin 200) (Fin 200) (Fin 200) (Fin 200),
       animationStretch =
         (new_Animation (Fin 2) (Fin 0) (Fin 20) (Fin 40) (Fin 0) (Fin 0))
         \<lparr> isAnimating := True \<rparr>,
       animationShrink = new_Animation (Fin 1) (Fin 0) (Fin 10) (Fin 20) (Fin 20) (Fin 40) \<rparr>"
  by (simp add: stretching10x20_def shape10x20_def stretchIn_def new_AnimatableShape_def
      Let_def new_Animation_def)

lemma stretched10x20_eq:
  "stretched10x20 =
     \<lparr> x = Fin 200, y = Fin 200, width = Fin 40, height = Fin 20,
       animationTween = new_Animation (Fin 0) (Fin 0) (Fin 200) (Fin 200) (Fin 200) (Fin 200),
       animationStretch = new_Animation (Fin 2) (Fin 0) (Fin 20) (Fin 40) (Fin 0) (Fin 0),
       animationShrink =
         (new_Animation (Fin 1) (Fin 2500) (Fin 10) (Fin 20) (Fin 20) (Fin 40))
         \<lparr> isAnimating := True \<rparr> \<rparr>"
  unfolding stretched10x20_def stretching10x20_eq
  by (simp add: draw_def drawTween_def drawStretch_def drawShrink_def Let_def new_Animation_def
      timePassedSince_def MILLISECONDS_IN_SECOND_def calculateEaseOut_def calculateEaseIn_def
      Math_pow2_def)

lemma shrunk10x20_eq:
  "shrunk10x20 =
     \<lparr> x = Fin 200, y = Fin 200, width = Fin 20, height = Fin 10,
       animationTween = new_Animation (Fin 0) (Fin 0) (Fin 200) (Fin 200) (Fin 200) (Fin 200),
       animationStretch = new_Animation (Fin 2) (Fin 0) (Fin 20) (Fin 40) (Fin 0) (Fin 0),
       animationShrink = new_Animation (Fin 1) (Fin 2500) (Fin 10) (Fin 20) (Fin 20) (Fin 40) \<rparr>"
  unfolding shrunk10x20_def stretched10x20_eq
  by (simp add: draw_def drawTween_def drawStretch_def drawShrink_def Let_def new_Animation_def
      timePassedSince_def MILLISECONDS_IN_SECOND_def calculateEaseOut_def calculateEaseIn_def
      Math_pow2_def)

section \<open>The stretch and shrink flags\<close>

lemma notBothRunning_fresh: "notBothRunning (new_AnimatableShape px py w h cw ch t1 t2 t3)"
  by (simp add: notBothRunning_def new_AnimatableShape_def new_Animation_def)

lemma notBothRunning_tween: "notBothRunning s \<Longrightarrow> notBothRunning (tween fx fy d t1 s)"
  by (simp add: notBothRunning_def tween_def)

lemma notBothRunning_stretchIn: "notBothRunning (stretchIn m d t1 t2 s)"
  by (simp add: notBothRunning_def stretchIn_def Let_def new_Animation_def)

lemma notBothRunning_drawStretch: "notBothRunning s \<Longrightarrow> notBothRunning (drawStretch t1 t2 s)"
  by (simp add: notBothRunning_def drawStretch_def Let_def)

lemma notBothRunning_draw:
  assumes "notBothRunning s"
  shows "notBothRunning (draw t1 t2 t3 t4 s)"
proof -
  have "notBothRunning (drawTween t1 s)"
    using assms by (simp add: notBothRunning_def)
  then have "notBothRunning (drawStretch t2 t3 (drawTween t1 s))"
    by (rule notBothRunning_drawStretch)
  then show ?thesis
    unfolding draw_def notBothRunning_def using drawShrink_flag by auto
qed

lemma reachable_notBothRunning: "reachable s \<Longrightarrow> notBothRunning s"
proof (induction rule: reachable.induct)
  case fresh
  show ?case by (rule notBothRunning_fresh)
next
  case after_tween
  then show ?case by (simp add: notBothRunning_tween)
next
  case after_stretchIn
  show ?case by (rule notBothRunning_stretchIn)
next
  case after_draw
  then show ?case by (simp add: notBothRunning_draw)
qed

lemma reachable_stretched10x20: "reachable stretched10x20"
  unfolding stretched10x20_def stretching10x20_def shape10x20_def
  by (intro reachable.intros)

section \<open>The claims\<close>

text \<open>
  C1. After \<open>stretchIn(maxScale, duration)\<close> on a shape of width \<open>w\<close> and height \<open>h\<close>, the
  stretch is said to take the width toward \<open>maxScale * w\<close> and the height toward
  \<open>maxScale * h\<close>, and the shrink to bring them back to \<open>w\<close> and \<open>h\<close>. The update reads
  the width from the Y fields of the animation and the height from the X fields, while
  \<open>stretchIn\<close> stores the width in the X fields and the height in the Y fields. On the
  shape of width 10 and height 20 with \<open>stretchIn(2, 3)\<close>: the update past the end of the
  stretch leaves width 40 and height 20 (not 20 and 40), and the update past the end of
  the shrink leaves width 20 and height 10 (not 10 and 20).
\<close>

theorem stretch_shrink_axes_swapped:
  "width shape10x20 = Fin 10 \<and> height shape10x20 = Fin 20 \<and>
   isAnimating (animationStretch stretching10x20) \<and>
   animDestinationX (animationStretch stretching10x20) = Fin 20 \<and>
   animDestinationY (animationStretch stretching10x20) = Fin 40 \<and>
   width stretched10x20 = Fin 40 \<and> height stretched10x20 = Fin 20 \<and>
   isAnimating (animationShrink stretched10x20) \<and>
   width shrunk10x20 = Fin 20 \<and> height shrunk10x20 = Fin 10 \<and>
   \<not> isAnimating (animationShrink shrunk10x20)"
  by (simp add: shrunk10x20_eq stretched10x20_eq stretching10x20_eq new_Animation_def)
    (simp add: shape10x20_def new_AnimatableShape_def)

text \<open>
  C2. For every call \<open>stretchIn(maxScale, duration)\<close>: a \<open>maxScale\<close> below 1 is first
  replaced by 1; then the duration of the stretch animation is
  \<open>(maxScale / (2 * maxScale - 1)) * duration\<close> and the duration of the shrink animation is
  \<open>duration\<close> minus the duration of the stretch. In particular \<open>stretchIn(1.5, 1.0)\<close>
  gives 0.75 and 0.25.
\<close>

theorem stretchIn_durations:
  "animDuration (animationStretch (stretchIn maxScale duration t1 t2 s)) =
     ((if maxScale < Fin 1 then Fin 1 else maxScale) /
      (Fin 2 * (if maxScale < Fin 1 then Fin 1 else maxScale) - Fin 1)) * duration \<and>
   animDuration (animationShrink (stretchIn maxScale duration t1 t2 s)) =
     duration - animDuration (animationStretch (stretchIn maxScale duration t1 t2 s)) \<and>
   animDuration (animationStretch (stretchIn (Fin 1.5) (Fin 1.0) t1 t2 s)) = Fin 0.75 \<and>
   animDuration (animationShrink (stretchIn (Fin 1.5) (Fin 1.0) t1 t2 s)) = Fin 0.25"
  by (simp add: stretchIn_def new_Animation_def Let_def twice_number)

text \<open>The clamp at work: \<open>stretchIn(0.5, 3)\<close> splits 3 seconds as \<open>maxScale = 1\<close> does.\<close>

theorem stretchIn_durations_witness:
  "animDuration (animationStretch (stretchIn (Fin 0.5) (Fin 3) (Fin 0) (Fin 0) shape10x20)) = Fin 3 \<and>
   animDuration (animationShrink (stretchIn (Fin 0.5) (Fin 3) (Fin 0) (Fin 0) shape10x20)) = Fin 0"
  using stretchIn_durations [of "Fin 0.5" "Fin 3" "Fin 0" "Fin 0" shape10x20]
  by simp

text \<open>
  C3. In every update in which the stretch animation is running and its elapsed time
  exceeds its duration, the stretch block of that same update clears the running flag of
  the stretch, stamps the start time of the shrink with the clock reading taken there and
  sets the running flag of the shrink: the state that enters the shrink block of this
  update has all three. At the end of the update the stretch is still stopped and the
  start time still the stamped one; the shrink is running unless its own completion test
  (elapsed time since the stamp above its duration) has already stopped it again.
\<close>

theorem stretch_hands_off_to_shrink:
  assumes "isAnimating (animationStretch s)"
    and "timePassedSince millisStretch (animationStretch s) > animDuration (animationStretch s)"
  shows "\<not> isAnimating (animationStretch (drawStretch millisStretch millisHandOff (drawTween millisTween s))) \<and>
     animStartTime (animationShrink (drawStretch millisStretch millisHandOff (drawTween millisTween s)))
       = millisHandOff \<and>
     isAnimating (animationShrink (drawStretch millisStretch millisHandOff (drawTween millisTween s))) \<and>
     draw millisTween millisStretch millisHandOff millisShrink s =
       drawShrink millisShrink (drawStretch millisStretch millisHandOff (drawTween millisTween s)) \<and>
     \<not> isAnimating (animationStretch (draw millisTween millisStretch millisHandOff millisShrink s)) \<and>
     animStartTime (animationShrink (draw millisTween millisStretch millisHandOff millisShrink s))
       = millisHandOff \<and>
     isAnimating (animationShrink (draw millisTween millisStretch millisHandOff millisShrink s)) =
       (\<not> (millisShrink / MILLISECONDS_IN_SECOND - millisHandOff / MILLISECONDS_IN_SECOND
             > animDuration (animationShrink s)))"
  using assms
  by (simp add: draw_def drawShrink_def drawStretch_def drawTween_def Let_def timePassedSince_def)

theorem stretch_hands_off_to_shrink_witness:
  "isAnimating (animationStretch stretching10x20) \<and>
   timePassedSince (Fin 2500) (animationStretch stretching10x20)
     > animDuration (animationStretch stretching10x20) \<and>
   \<not> isAnimating (animationStretch (draw (Fin 2500) (Fin 2500) (Fin 2501) (Fin 2502) stretching10x20)) \<and>
   animStartTime (animationShrink (draw (Fin 2500) (Fin 2500) (Fin 2501) (Fin 2502) stretching10x20))
     = Fin 2501 \<and>
   isAnimating (animationShrink (draw (Fin 2500) (Fin 2500) (Fin 2501) (Fin 2502) stretching10x20))"
proof -
  have running: "isAnimating (animationStretch stretching10x20)"
    by (simp add: stretching10x20_eq)
  have over: "timePassedSince (Fin 2500) (animationStretch stretching10x20)
      > animDuration (animationStretch stretching10x20)"
    by (simp add: stretching10x20_eq new_Animation_def timePassedSince_def
        MILLISECONDS_IN_SECOND_def)
  have early: "\<not> (Fin 2502 / MILLISECONDS_IN_SECOND - Fin 2501 / MILLISECONDS_IN_SECOND
      > animDuration (animationShrink stretching10x20))"
    by (simp add: stretching10x20_eq new_Animation_def MILLISECONDS_IN_SECOND_def)
  show ?thesis
    using running over early
      stretch_hands_off_to_shrink [OF running over, where millisTween = "Fin 2500"
        and millisHandOff = "Fin 2501" and millisShrink = "Fin 2502"]
    by blast
qed

text \<open>
  C4. For every shape and every call \<open>tween(finalX, finalY, duration)\<close>, the call replaces
  the tween slot by a new animation that starts at the current \<open>(x, y)\<close> of the shape,
  ends at \<open>(finalX, finalY)\<close>, has the current clock reading as start time and is running;
  nothing else of the shape changes. So it is for a shape whose earlier tween is in mid
  flight: the shape built at (100, 100) and updated half way to (200, 300) is at
  (175, 250), and a tween called there starts at (175, 250).
\<close>

theorem tween_starts_at_current_position:
  "animationTween (tween finalX finalY duration millisNow s) =
     \<lparr> animDuration = duration,
       animDestinationX = finalX,
       animDestinationY = finalY,
       animStartX = x s,
       animStartY = y s,
       animStartTime = millisNow,
       isAnimating = True,
       animDistanceX = finalX - x s,
       animDistanceY = finalY - y s \<rparr> \<and>
   tween finalX finalY duration millisNow s =
     s\<lparr> animationTween := animationTween (tween finalX finalY duration millisNow s) \<rparr> \<and>
   isAnimating (animationTween midFlight100) \<and>
   animStartX (animationTween (tween (Fin 0) (Fin 0) (Fin 1) (Fin 500) midFlight100)) = Fin 175 \<and>
   animStartY (animationTween (tween (Fin 0) (Fin 0) (Fin 1) (Fin 500) midFlight100)) = Fin 250"
  by (simp add: tween_def new_Animation_def midFlight100_eq)




text \<open>
  C6, as stated: for a duration that is zero or negative and an elapsed time \<open>t \<ge> 0\<close>, the
  percentage is taken as 1 and the easing returns \<open>start + distance\<close>. It fails for a
  negative duration, where the quotient is negative and there is no clamp from below:
  with start 2, distance 4, duration -2 and \<open>t = 1\<close> the ease-in returns 3 and the ease-out
  -3, not 6. It fails for duration 0 at \<open>t = 0\<close>, where the quotient \<open>0 / 0\<close> is NaN and
  so is the result. It fails for the duration \<open>-0\<close>, which compares as equal to zero:
  the quotient \<open>1 / -0\<close> is \<open>-Infinity\<close>, the ease-in returns \<open>+Infinity\<close> and the ease-out
  \<open>-Infinity\<close>.
\<close>

theorem easing_nonpositive_duration_counterexample:
  "calculateEaseIn (Fin 1) (Fin (- 2)) (Fin 4) (Fin 2) = Fin 3 \<and>
   calculateEaseOut (Fin 1) (Fin (- 2)) (Fin 4) (Fin 2) = Fin (- 3) \<and>
   calculateEaseIn (Fin 1) (Fin (- 2)) (Fin 4) (Fin 2) \<noteq> Fin 2 + Fin 4 \<and>
   calculateEaseOut (Fin 1) (Fin (- 2)) (Fin 4) (Fin 2) \<noteq> Fin 2 + Fin 4 \<and>
   calculateEaseIn (Fin 0) (Fin 0) (Fin 4) (Fin 2) = NaN \<and>
   calculateEaseOut (Fin 0) (Fin 0) (Fin 4) (Fin 2) = NaN \<and>
   \<not> (NegZero < Fin 0) \<and> \<not> (Fin 0 < NegZero) \<and>
   calculateEaseIn (Fin 1) NegZero (Fin 4) (Fin 2) = PosInf \<and>
   calculateEaseOut (Fin 1) NegZero (Fin 4) (Fin 2) = NegInf"
  by (simp add: calculateEaseIn_def calculateEaseOut_def Math_pow2_def Let_def signedInf_def)

text \<open>
  C6, amended: for the duration \<open>+0\<close> and an elapsed time \<open>t > 0\<close> (any start and any
  distance) the quotient is \<open>+Infinity\<close>, the clamp makes it 1 and both easings return
  \<open>start + distance\<close>. For the duration \<open>-0\<close> and \<open>t > 0\<close> the quotient is \<open>-Infinity\<close>, and
  for a negative duration and \<open>t \<ge> 0\<close> the quotient \<open>p = t / duration\<close> is not above 0; in
  both cases it is used as it is, with no clamp: the ease-out returns
  \<open>start + (-1 * distance * p * (p - 2))\<close> and the ease-in
  \<open>start + distance * Math.pow(p, 2)\<close>. Every evaluation returns a number: no operation of
  the easing functions can raise.
\<close>

theorem easing_nonpositive_duration:
  "(0 < t \<longrightarrow>
      calculateEaseOut (Fin t) (Fin 0) distance position = position + distance \<and>
      calculateEaseIn (Fin t) (Fin 0) distance position = position + distance) \<and>
   (0 < t \<longrightarrow>
      Fin t / NegZero = NegInf \<and>
      calculateEaseOut (Fin t) NegZero distance position =
        position + (Fin (- 1) * distance * NegInf * (NegInf - Fin 2)) \<and>
      calculateEaseIn (Fin t) NegZero distance position =
        position + distance * Math_pow2 NegInf) \<and>
   (d < 0 \<and> 0 \<le> t \<longrightarrow>
      \<not> (Fin t / Fin d > Fin 0) \<and>
      calculateEaseOut (Fin t) (Fin d) distance position =
        position + (Fin (- 1) * distance * (Fin t / Fin d) * (Fin t / Fin d - Fin 2)) \<and>
      calculateEaseIn (Fin t) (Fin d) distance position =
        position + distance * Math_pow2 (Fin t / Fin d))"
proof -
  have zero: "0 < t \<longrightarrow>
      calculateEaseOut (Fin t) (Fin 0) distance position = position + distance \<and>
      calculateEaseIn (Fin t) (Fin 0) distance position = position + distance"
    by (simp add: easeOut_past_duration easeIn_past_duration)
  have negzero: "0 < t \<longrightarrow>
      Fin t / NegZero = NegInf \<and>
      calculateEaseOut (Fin t) NegZero distance position =
        position + (Fin (- 1) * distance * NegInf * (NegInf - Fin 2)) \<and>
      calculateEaseIn (Fin t) NegZero distance position =
        position + distance * Math_pow2 NegInf"
    by (simp add: calculateEaseOut_def calculateEaseIn_def Let_def signedInf_def)
  have negative: "d < 0 \<and> 0 \<le> t \<longrightarrow>
      \<not> (Fin t / Fin d > Fin 0) \<and>
      calculateEaseOut (Fin t) (Fin d) distance position =
        position + (Fin (- 1) * distance * (Fin t / Fin d) * (Fin t / Fin d - Fin 2)) \<and>
      calculateEaseIn (Fin t) (Fin d) distance position =
        position + distance * Math_pow2 (Fin t / Fin d)"
  proof
    assume a: "d < 0 \<and> 0 \<le> t"
    then have "t / d \<le> 0" by (simp add: divide_nonneg_neg)
    then have q: "\<not> (Fin t / Fin d > Fin 0)" "\<not> (Fin t / Fin d > Fin 1)"
      using a by auto
    show "\<not> (Fin t / Fin d > Fin 0) \<and>
      calculateEaseOut (Fin t) (Fin d) distance position =
        position + (Fin (- 1) * distance * (Fin t / Fin d) * (Fin t / Fin d - Fin 2)) \<and>
      calculateEaseIn (Fin t) (Fin d) distance position =
        position + distance * Math_pow2 (Fin t / Fin d)"
      using q unfolding calculateEaseOut_def calculateEaseIn_def Let_def by simp
  qed
  from zero negzero negative show ?thesis by blast
qed

theorem easing_nonpositive_duration_witness:
  "(0::real) < 1 \<and> (- 2::real) < 0 \<and> (0::real) \<le> 1 \<and>
   calculateEaseOut (Fin 1) (Fin 0) (Fin 4) (Fin 2) = Fin 6 \<and>
   calculateEaseIn (Fin 1) (Fin 0) (Fin 4) (Fin 2) = Fin 6 \<and>
   calculateEaseOut (Fin 1) NegZero (Fin 4) (Fin 2) = NegInf \<and>
   calculateEaseIn (Fin 1) NegZero (Fin 4) (Fin 2) = PosInf \<and>
   calculateEaseOut (Fin 1) (Fin (- 2)) (Fin 4) (Fin 2) = Fin (- 3) \<and>
   calculateEaseIn (Fin 1) (Fin (- 2)) (Fin 4) (Fin 2) = Fin 3"
  using easing_nonpositive_duration [of 1 "Fin 4" "Fin 2" "- 2"]
  by (simp add: Math_pow2_def signedInf_def)

text \<open>
  C7. For every start, distance and duration \<open>d > 0\<close>: the ease-out at time 0 is the start
  and at time \<open>d\<close> is \<open>start + distance\<close>, and so is the ease-in.
\<close>

theorem easing_boundary_values:
  "0 < d \<Longrightarrow>
   calculateEaseOut (Fin 0) (Fin d) (Fin dx) (Fin s) = Fin s \<and>
   calculateEaseOut (Fin d) (Fin d) (Fin dx) (Fin s) = Fin (s + dx) \<and>
   calculateEaseIn (Fin 0) (Fin d) (Fin dx) (Fin s) = Fin s \<and>
   calculateEaseIn (Fin d) (Fin d) (Fin dx) (Fin s) = Fin (s + dx)"
  by (simp add: calculateEaseOut_def calculateEaseIn_def Math_pow2_def Let_def)

theorem easing_boundary_values_witness:
  "(0::real) < 2 \<and>
   calculateEaseOut (Fin 0) (Fin 2) (Fin 4) (Fin 1) = Fin 1 \<and>
   calculateEaseOut (Fin 2) (Fin 2) (Fin 4) (Fin 1) = Fin 5 \<and>
   calculateEaseIn (Fin 0) (Fin 2) (Fin 4) (Fin 1) = Fin 1 \<and>
   calculateEaseIn (Fin 2) (Fin 2) (Fin 4) (Fin 1) = Fin 5"
  using easing_boundary_values [of 2 4 1]
  by simp

text \<open>
  C10. In every state reachable from a freshly constructed shape by any sequence of
  \<open>tween\<close>, \<open>stretchIn\<close> and update calls, the running flags of the stretch and of the
  shrink animation are not both true.
\<close>

theorem stretch_shrink_never_both_running:
  "reachable s \<Longrightarrow> \<not> (isAnimating (animationStretch s) \<and> isAnimating (animationShrink s))"
  using reachable_notBothRunning [of s] by (simp add: notBothRunning_def)

theorem stretch_shrink_never_both_running_witness:
  "reachable stretched10x20 \<and>
   \<not> (isAnimating (animationStretch stretched10x20) \<and> isAnimating (animationShrink stretched10x20)) \<and>
   isAnimating (animationShrink stretched10x20)"
  using stretch_shrink_never_both_running [OF reachable_stretched10x20] reachable_stretched10x20
  by (simp add: stretched10x20_eq)

end
